theory Spec2Isabelle
  imports Main "HOL-Library.Sublist"
begin

section \<open>Python string primitives used by the editor\<close>

text \<open>
  A Python \<open>str\<close> is a sequence of code points; it is modelled as a \<open>string\<close>, one
  \<open>char\<close> per code point (the code points below 256). \<open>len\<close> is \<open>length\<close>, \<open>+\<close> is
  \<open>@\<close>, and the truth value of a \<open>str\<close> is \<open>s \<noteq> []\<close>.
\<close>

definition isspace :: "char \<Rightarrow> bool" where
  \<comment> \<open>the code points below 256 that \<open>str.strip()\<close> and \<open>str.split()\<close> treat as whitespace\<close>
  "isspace c = (of_char c \<in> {9, 10, 11, 12, 13, 28, 29, 30, 31, 32, 133, 160 :: nat})"

definition strip :: "string \<Rightarrow> string" where
  \<comment> \<open>\<open>s.strip()\<close>: leading and trailing whitespace removed\<close>
  "strip s = rev (dropWhile isspace (rev (dropWhile isspace s)))"

fun split_acc :: "string \<Rightarrow> string \<Rightarrow> string list" where
  "split_acc [] cur = (if cur = [] then [] else [cur])"
| "split_acc (c # cs) cur =
     (if isspace c then (if cur = [] then split_acc cs [] else cur # split_acc cs [])
      else split_acc cs (cur @ [c]))"

definition split_ws :: "string \<Rightarrow> string list" where
  \<comment> \<open>\<open>s.split()\<close>: the maximal runs of non-whitespace\<close>
  "split_ws s = split_acc s []"

fun str_find :: "string \<Rightarrow> string \<Rightarrow> int" where
  \<comment> \<open>\<open>s.find(sub)\<close>: the lowest index at which \<open>sub\<close> occurs in \<open>s\<close>, or \<open>-1\<close>\<close>
  "str_find [] sub = (if sub = [] then 0 else - 1)"
| "str_find (c # cs) sub =
     (if prefix sub (c # cs) then 0
      else (let r = str_find cs sub in if r = - 1 then - 1 else r + 1))"

definition slice_index :: "nat \<Rightarrow> int \<Rightarrow> nat" where
  \<comment> \<open>how a slice bound is read against a length: negative bounds count from the end,
      and every bound is clamped into \<open>0..n\<close>\<close>
  "slice_index n i = (if i < 0 then nat (max 0 (int n + i)) else min n (nat i))"

definition py_slice :: "string \<Rightarrow> int \<Rightarrow> int \<Rightarrow> string" where
  \<comment> \<open>\<open>s[i:j]\<close>\<close>
  "py_slice s i j =
     (let lo = slice_index (length s) i; hi = slice_index (length s) j
      in take (hi - lo) (drop lo s))"

definition slice_to :: "string \<Rightarrow> int \<Rightarrow> string" where
  \<comment> \<open>\<open>s[:j]\<close>\<close>
  "slice_to s j = take (slice_index (length s) j) s"

definition slice_from :: "string \<Rightarrow> int \<Rightarrow> string" where
  \<comment> \<open>\<open>s[i:]\<close>\<close>
  "slice_from s i = drop (slice_index (length s) i) s"

fun str_nat :: "nat \<Rightarrow> string" where
  "str_nat n =
     (if n < 10 then [char_of (48 + n)]
      else str_nat (n div 10) @ [char_of (48 + n mod 10)])"

declare str_nat.simps [simp del]

definition str_int :: "int \<Rightarrow> string" where
  \<comment> \<open>how an f-string renders an \<open>int\<close>\<close>
  "str_int i = (if i < 0 then CHR ''-'' # str_nat (nat (- i)) else str_nat (nat i))"


section \<open>The document and the editor state\<close>

record text_document =
  doc_text :: string
  footnotes :: "string list"
  metadata :: "string \<rightharpoonup> string"

definition new_text_document :: "string \<Rightarrow> text_document" where
  \<comment> \<open>\<open>TextDocument()\<close>; \<open>now\<close> is the timestamp the clock gives at the call\<close>
  "new_text_document now =
     \<lparr>doc_text = [], footnotes = [], metadata = [''created_at'' \<mapsto> now]\<rparr>"

definition update_text :: "string \<Rightarrow> string \<Rightarrow> text_document \<Rightarrow> text_document" where
  "update_text now new_text d =
     d\<lparr>doc_text := new_text, metadata := (metadata d)(''last_modified'' \<mapsto> now)\<rparr>"

record text_editor =
  document :: text_document
  selection_start :: int
  selection_end :: int

definition init_editor :: "string \<Rightarrow> text_editor" where
  \<comment> \<open>\<open>TextEditor.__init__\<close>, the fields the selection tracker reads and writes\<close>
  "init_editor now =
     \<lparr>document = new_text_document now, selection_start = 0, selection_end = 0\<rparr>"

datatype notice = Warning string | Info string

text \<open>
  A call returns a value, leaves the editor in a state and shows one notice
  (\<open>gr.Warning\<close> or \<open>gr.Info\<close>, neither of which raises).
\<close>

record 'r outcome =
  state :: text_editor
  returned :: 'r
  notice :: notice

datatype context_data = No_data | Stats nat nat string


section \<open>Capture and splice\<close>

definition full_text :: "text_editor \<Rightarrow> string \<Rightarrow> text_editor \<times> string" where
  \<comment> \<open>the two branches of \<open>copy_to_context\<close> that select the whole source\<close>
  "full_text ed source_text =
     (ed\<lparr>selection_start := 0, selection_end := int (length source_text)\<rparr>, source_text)"

definition copy_to_context ::
  "text_editor \<Rightarrow> string \<Rightarrow> string \<Rightarrow> (string \<times> context_data) outcome" where
  "copy_to_context ed source_text selected_text =
     (let text_to_copy = (if strip selected_text \<noteq> [] then selected_text else source_text) in
      if strip text_to_copy = [] then
        \<lparr>state = ed, returned = ([], No_data), notice = Warning ''No text to copy.''\<rparr>
      else
        let (ed', text_to_copy) =
              (if text_to_copy \<noteq> source_text \<and> strip text_to_copy \<noteq> [] then
                 (let start_idx = str_find source_text text_to_copy in
                  if start_idx \<noteq> - 1 then
                    (let end_idx = start_idx + int (length text_to_copy) in
                     (ed\<lparr>selection_start := start_idx, selection_end := end_idx\<rparr>,
                      text_to_copy))
                  else full_text ed source_text)
               else full_text ed source_text);
            words = (if text_to_copy \<noteq> [] then length (split_ws text_to_copy) else 0);
            chars = length text_to_copy;
            selection_range =
              str_int (selection_start ed') @ '':'' @ str_int (selection_end ed')
        in \<lparr>state = ed',
            returned = (text_to_copy, Stats words chars selection_range),
            notice = Info (''Text copied to context area (indices: ''
                           @ str_int (selection_start ed') @ '':''
                           @ str_int (selection_end ed') @ '')'')\<rparr>)"

definition no_context_msg :: string where
  "no_context_msg = ''No text selected in context area to replace.''"

definition no_modified_msg :: string where
  "no_modified_msg = ''No modified text to apply.''"

definition invalid_indices_msg :: string where
  "invalid_indices_msg = ''Invalid selection indices. Please select text again.''"

definition mismatch_msg :: string where
  "mismatch_msg =
     ''Context text doesn'' @ [CHR 0x27]
     @ ''t match selected region. Source text may have changed.''"

definition apply_modified ::
  "string \<Rightarrow> text_editor \<Rightarrow> string \<Rightarrow> string \<Rightarrow> string \<Rightarrow> string outcome" where
  \<comment> \<open>\<open>now\<close> is the timestamp \<open>update_text\<close> reads from the clock\<close>
  "apply_modified now ed source_text context_text modification_text =
     (if strip context_text = [] then
        \<lparr>state = ed, returned = source_text, notice = Warning no_context_msg\<rparr>
      else if strip modification_text = [] then
        \<lparr>state = ed, returned = source_text, notice = Warning no_modified_msg\<rparr>
      else if selection_start ed < 0 \<or> selection_end ed < 0
              \<or> selection_start ed \<ge> int (length source_text) then
        \<lparr>state = ed, returned = source_text, notice = Warning invalid_indices_msg\<rparr>
      else
        let start_idx = max 0 (selection_start ed);
            end_idx = min (int (length source_text)) (selection_end ed);
            selected_region = py_slice source_text start_idx end_idx
        in if selected_region \<noteq> context_text then
             \<lparr>state = ed, returned = source_text, notice = Warning mismatch_msg\<rparr>
           else
             let new_source = slice_to source_text start_idx @ modification_text
                              @ slice_from source_text end_idx
             in \<lparr>state = ed\<lparr>document := update_text now new_source (document ed),
                              selection_start := 0, selection_end := 0\<rparr>,
                 returned = new_source,
                 notice = Info (''Modified text applied successfully at indices ''
                                @ str_int start_idx @ '':'' @ str_int end_idx)\<rparr>)"


section \<open>Example inputs\<close>

definition fox :: string where
  "fox = ''The quick brown fox''"

definition editor_at :: "int \<Rightarrow> int \<Rightarrow> text_editor" where
  \<comment> \<open>a fresh editor whose stored offsets are \<open>(a, b)\<close>\<close>
  "editor_at a b =
     (init_editor ''2025-01-01T00:00:00Z'')\<lparr>selection_start := a, selection_end := b\<rparr>"


section \<open>Facts about the string primitives\<close>

lemma strip_eq_Nil_iff: "strip s = [] \<longleftrightarrow> (\<forall>c\<in>set s. isspace c)"
proof
  assume "strip s = []"
  then have all: "\<forall>c\<in>set (dropWhile isspace s). isspace c"
    by (simp add: strip_def)
  have "dropWhile isspace s = []"
  proof (rule ccontr)
    assume ne: "dropWhile isspace s \<noteq> []"
    then have "\<not> isspace (hd (dropWhile isspace s))"
      by (rule hd_dropWhile)
    moreover have "hd (dropWhile isspace s) \<in> set (dropWhile isspace s)"
      using ne by (rule hd_in_set)
    ultimately show False using all by blast
  qed
  then show "\<forall>c\<in>set s. isspace c"
    by simp
next
  assume "\<forall>c\<in>set s. isspace c"
  then have d: "dropWhile isspace s = []"
    by simp
  show "strip s = []"
    unfolding strip_def d by simp
qed

lemma strip_nonempty_D: "strip s \<noteq> [] \<Longrightarrow> s \<noteq> []"
  by (auto simp: strip_eq_Nil_iff)

lemma str_find_ge: "- 1 \<le> str_find s sub"
  by (induction s) (auto simp: Let_def)

lemma str_find_found:
  "str_find s sub \<noteq> - 1 \<Longrightarrow>
     0 \<le> str_find s sub \<and> nat (str_find s sub) + length sub \<le> length s
     \<and> take (length sub) (drop (nat (str_find s sub)) s) = sub"
proof (induction s)
  case Nil
  then show ?case by (auto split: if_splits)
next
  case (Cons c cs)
  show ?case
  proof (cases "prefix sub (c # cs)")
    case True
    then show ?thesis using prefix_length_le[OF True] by (auto simp: prefix_def)
  next
    case False
    with Cons.prems have ne: "str_find cs sub \<noteq> - 1"
      by (auto simp: Let_def split: if_splits)
    with False have eq: "str_find (c # cs) sub = str_find cs sub + 1"
      by (simp add: Let_def)
    from Cons.IH[OF ne] show ?thesis
      unfolding eq by (simp add: nat_add_distrib)
  qed
qed

lemma str_find_none_iff: "str_find s sub = - 1 \<longleftrightarrow> \<not> sublist sub s"
proof (induction s)
  case Nil
  then show ?case by auto
next
  case (Cons c cs)
  have ge: "- 1 \<le> str_find cs sub" by (rule str_find_ge)
  show ?case
  proof (cases "prefix sub (c # cs)")
    case True
    then show ?thesis by (auto dest: prefix_imp_sublist)
  next
    case False
    then have "str_find (c # cs) sub = - 1 \<longleftrightarrow> str_find cs sub = - 1"
      using ge by (auto simp: Let_def)
    moreover have "sublist sub (c # cs) \<longleftrightarrow> sublist sub cs"
      using False by (auto simp: sublist_Cons_right)
    ultimately show ?thesis using Cons.IH by simp
  qed
qed

lemma py_slice_in_range:
  "0 \<le> a \<Longrightarrow> a \<le> b \<Longrightarrow> b \<le> int (length s) \<Longrightarrow>
     py_slice s a b = take (nat b - nat a) (drop (nat a) s)"
  by (simp add: py_slice_def slice_index_def Let_def min_def)

lemma py_slice_whole: "py_slice s 0 (int (length s)) = s"
  by (simp add: py_slice_def slice_index_def)

lemma py_slice_empty: "py_slice s 0 0 = []"
  by (simp add: py_slice_def slice_index_def)

lemma py_slice_at_find:
  assumes "str_find s sub \<noteq> - 1"
  shows "py_slice s (str_find s sub) (str_find s sub + int (length sub)) = sub"
proof -
  let ?i = "str_find s sub"
  from str_find_found[OF assms]
  have "0 \<le> ?i" and "nat ?i + length sub \<le> length s"
    and "take (length sub) (drop (nat ?i) s) = sub"
    by simp_all
  then show ?thesis
    by (simp add: py_slice_in_range nat_add_distrib)
qed


section \<open>The branches of capture\<close>

lemma copy_to_context_notice:
  "(notice (copy_to_context ed source_text selected_text) = Warning ''No text to copy.'')
     = (strip (if strip selected_text \<noteq> [] then selected_text else source_text) = [])"
  by (simp add: copy_to_context_def Let_def split: prod.splits)

lemma copy_to_context_found:
  assumes "strip selected_text \<noteq> []" and "selected_text \<noteq> source_text"
    and "str_find source_text selected_text \<noteq> - 1"
  shows "state (copy_to_context ed source_text selected_text) =
           ed\<lparr>selection_start := str_find source_text selected_text,
              selection_end := str_find source_text selected_text + int (length selected_text)\<rparr>"
    and "fst (returned (copy_to_context ed source_text selected_text)) = selected_text"
  using assms by (simp_all add: copy_to_context_def Let_def)

lemma copy_to_context_full:
  assumes "strip (if strip selected_text \<noteq> [] then selected_text else source_text) \<noteq> []"
    and "strip selected_text = [] \<or> selected_text = source_text
         \<or> str_find source_text selected_text = - 1"
  shows "state (copy_to_context ed source_text selected_text) =
           ed\<lparr>selection_start := 0, selection_end := int (length source_text)\<rparr>"
    and "fst (returned (copy_to_context ed source_text selected_text)) = source_text"
  using assms by (auto simp add: copy_to_context_def Let_def full_text_def)


section \<open>The branches of splice\<close>

lemma messages_distinct:
  "no_context_msg \<noteq> invalid_indices_msg" "no_modified_msg \<noteq> invalid_indices_msg"
  "mismatch_msg \<noteq> invalid_indices_msg"
  by (simp_all add: no_context_msg_def no_modified_msg_def invalid_indices_msg_def
        mismatch_msg_def)

lemma apply_modified_success:
  assumes "notice (apply_modified now ed source_text context_text modification_text) = Info i"
  shows "strip context_text \<noteq> []" and "strip modification_text \<noteq> []"
    and "0 \<le> selection_start ed" and "0 \<le> selection_end ed"
    and "selection_start ed < int (length source_text)"
    and "py_slice source_text (max 0 (selection_start ed))
           (min (int (length source_text)) (selection_end ed)) = context_text"
    and "apply_modified now ed source_text context_text modification_text =
           \<lparr>state = ed\<lparr>document :=
                          update_text now
                            (slice_to source_text (max 0 (selection_start ed))
                             @ modification_text
                             @ slice_from source_text
                                 (min (int (length source_text)) (selection_end ed)))
                            (document ed),
                        selection_start := 0, selection_end := 0\<rparr>,
            returned = slice_to source_text (max 0 (selection_start ed))
                       @ modification_text
                       @ slice_from source_text
                           (min (int (length source_text)) (selection_end ed)),
            notice = Info i\<rparr>"
  using assms by (auto simp add: apply_modified_def Let_def split: if_splits)


section \<open>Capture\<close>

text \<open>
  C3, as the code has it. A selection that contains a character other than whitespace and
  occurs in the source text is resolved exactly: capture returns the selection as the
  context text, and the offsets it stores cut the selection out of the source text. (A
  selection of whitespace only is not resolved: capture falls back to the whole source
  text, or warns when the source text is whitespace only too.)
\<close>

theorem capture_resolves_selection:
  assumes "sublist selected_text source_text" and "strip selected_text \<noteq> []"
  shows "fst (returned (copy_to_context ed source_text selected_text)) = selected_text
         \<and> py_slice source_text
               (selection_start (state (copy_to_context ed source_text selected_text)))
               (selection_end (state (copy_to_context ed source_text selected_text)))
             = selected_text"
proof (cases "selected_text = source_text")
  case True
  with assms(2) show ?thesis
    using copy_to_context_full[of selected_text source_text ed]
    by (simp add: py_slice_whole)
next
  case False
  from assms(1) have found: "str_find source_text selected_text \<noteq> - 1"
    by (simp add: str_find_none_iff)
  from py_slice_at_find[OF found] show ?thesis
    using copy_to_context_found[OF assms(2) False found, of ed] by simp
qed

theorem capture_resolves_selection_witness:
  "sublist ''quick brown'' fox \<and> strip ''quick brown'' \<noteq> []
   \<and> fst (returned (copy_to_context (editor_at 0 0) fox ''quick brown'')) = ''quick brown''
   \<and> py_slice fox
        (selection_start (state (copy_to_context (editor_at 0 0) fox ''quick brown'')))
        (selection_end (state (copy_to_context (editor_at 0 0) fox ''quick brown'')))
      = ''quick brown''"
proof -
  have sub: "sublist ''quick brown'' fox"
    by code_simp
  have sel: "strip ''quick brown'' \<noteq> []"
    by code_simp
  from capture_resolves_selection[OF sub sel, of "editor_at 0 0"] sub sel
  show ?thesis by simp
qed

text \<open>
  C3 as stated fails: the single blank is a substring of the non-empty source \<open>a b\<close>, yet
  capture returns the whole source as the context text and stores the offsets \<open>(0, 3)\<close>.
\<close>

theorem capture_resolves_selection_counterexample:
  "''a b'' \<noteq> [] \<and> sublist '' '' ''a b''
   \<and> fst (returned (copy_to_context (editor_at 0 0) ''a b'' '' '')) \<noteq> '' ''
   \<and> py_slice ''a b''
        (selection_start (state (copy_to_context (editor_at 0 0) ''a b'' '' '')))
        (selection_end (state (copy_to_context (editor_at 0 0) ''a b'' '' '')))
      \<noteq> '' ''"
  by code_simp

text \<open>
  C7, as the code has it. Capture falls back to the whole source text, storing the offsets
  \<open>(0, len(source_text))\<close> and returning the source text as the context text, when the
  selection is empty or whitespace only and the source text contains a character other
  than whitespace, and when the selection contains a character other than whitespace and
  does not occur in the source text.
\<close>

theorem capture_full_text_fallback:
  assumes "(strip selected_text = [] \<and> strip source_text \<noteq> [])
           \<or> (strip selected_text \<noteq> [] \<and> \<not> sublist selected_text source_text)"
  shows "selection_start (state (copy_to_context ed source_text selected_text)) = 0
         \<and> selection_end (state (copy_to_context ed source_text selected_text))
             = int (length source_text)
         \<and> fst (returned (copy_to_context ed source_text selected_text)) = source_text"
proof -
  from assms
  have ne: "strip (if strip selected_text \<noteq> [] then selected_text else source_text) \<noteq> []"
    by auto
  from assms
  have "strip selected_text = [] \<or> selected_text = source_text
        \<or> str_find source_text selected_text = - 1"
    by (auto simp: str_find_none_iff)
  from copy_to_context_full[OF ne this, of ed] show ?thesis
    by simp
qed

theorem capture_full_text_fallback_witness:
  "strip [] = [] \<and> strip ''Hello world'' \<noteq> []
   \<and> selection_start (state (copy_to_context (editor_at 0 0) ''Hello world'' [])) = 0
   \<and> selection_end (state (copy_to_context (editor_at 0 0) ''Hello world'' [])) = 11
   \<and> fst (returned (copy_to_context (editor_at 0 0) ''Hello world'' [])) = ''Hello world''
   \<and> strip ''xyz'' \<noteq> [] \<and> \<not> sublist ''xyz'' ''Hello world''
   \<and> selection_start (state (copy_to_context (editor_at 2 5) ''Hello world'' ''xyz'')) = 0
   \<and> selection_end (state (copy_to_context (editor_at 2 5) ''Hello world'' ''xyz'')) = 11
   \<and> fst (returned (copy_to_context (editor_at 2 5) ''Hello world'' ''xyz''))
       = ''Hello world''"
proof -
  have e: "strip [] = []" and s: "strip ''Hello world'' \<noteq> []"
    by code_simp+
  have x: "strip ''xyz'' \<noteq> []" and n: "\<not> sublist ''xyz'' ''Hello world''"
    by code_simp+
  from e s have h1: "(strip [] = [] \<and> strip ''Hello world'' \<noteq> [])
      \<or> (strip [] \<noteq> [] \<and> \<not> sublist [] ''Hello world'')"
    by (rule disjI1[OF conjI])
  from x n have h2: "(strip ''xyz'' = [] \<and> strip ''Hello world'' \<noteq> [])
      \<or> (strip ''xyz'' \<noteq> [] \<and> \<not> sublist ''xyz'' ''Hello world'')"
    by (rule disjI2[OF conjI])
  from capture_full_text_fallback[OF h1, of "editor_at 0 0"]
    capture_full_text_fallback[OF h2, of "editor_at 2 5"] e s x n
  show ?thesis by simp
qed

text \<open>
  C7 as stated fails: the source text of one blank is non-empty and the selection is
  empty, yet capture warns that there is no text to copy, returns the empty string and
  stores no offsets (they stay \<open>(0, 0)\<close>, not \<open>(0, 1)\<close>).
\<close>

theorem capture_full_text_fallback_counterexample:
  "'' '' \<noteq> [] \<and> strip [] = []
   \<and> notice (copy_to_context (editor_at 0 0) '' '' []) = Warning ''No text to copy.''
   \<and> selection_end (state (copy_to_context (editor_at 0 0) '' '' [])) \<noteq> int (length '' '')
   \<and> fst (returned (copy_to_context (editor_at 0 0) '' '' [])) \<noteq> '' ''"
  by code_simp

text \<open>
  C9. After every capture that does not warn that there is no text to copy, the stored
  offsets satisfy \<open>0 \<le> selection_start \<le> selection_end \<le> len(source_text)\<close>.
\<close>

theorem capture_offsets_in_range:
  assumes "notice (copy_to_context ed source_text selected_text) \<noteq> Warning ''No text to copy.''"
  shows "0 \<le> selection_start (state (copy_to_context ed source_text selected_text))
         \<and> selection_start (state (copy_to_context ed source_text selected_text))
             \<le> selection_end (state (copy_to_context ed source_text selected_text))
         \<and> selection_end (state (copy_to_context ed source_text selected_text))
             \<le> int (length source_text)"
proof -
  from assms
  have ne: "strip (if strip selected_text \<noteq> [] then selected_text else source_text) \<noteq> []"
    by (simp only: copy_to_context_notice not_False_eq_True)
  show ?thesis
  proof (cases "strip selected_text \<noteq> [] \<and> selected_text \<noteq> source_text
                \<and> str_find source_text selected_text \<noteq> - 1")
    case True
    then have found: "str_find source_text selected_text \<noteq> - 1" by simp
    from str_find_found[OF found] copy_to_context_found(1)[of selected_text source_text ed] True
    show ?thesis by simp linarith
  next
    case False
    then have "strip selected_text = [] \<or> selected_text = source_text
               \<or> str_find source_text selected_text = - 1"
      by blast
    from copy_to_context_full(1)[OF ne this, of ed] show ?thesis
      by simp
  qed
qed

theorem capture_offsets_in_range_witness:
  "notice (copy_to_context (editor_at 0 0) fox ''quick brown'') \<noteq> Warning ''No text to copy.''
   \<and> selection_start (state (copy_to_context (editor_at 0 0) fox ''quick brown'')) = 4
   \<and> selection_end (state (copy_to_context (editor_at 0 0) fox ''quick brown'')) = 15
   \<and> 0 \<le> selection_start (state (copy_to_context (editor_at 0 0) fox ''quick brown''))
   \<and> selection_start (state (copy_to_context (editor_at 0 0) fox ''quick brown''))
       \<le> selection_end (state (copy_to_context (editor_at 0 0) fox ''quick brown''))
   \<and> selection_end (state (copy_to_context (editor_at 0 0) fox ''quick brown''))
       \<le> int (length fox)"
proof -
  have h: "notice (copy_to_context (editor_at 0 0) fox ''quick brown'')
             \<noteq> Warning ''No text to copy.''"
    by code_simp
  have s: "selection_start (state (copy_to_context (editor_at 0 0) fox ''quick brown'')) = 4"
    and e: "selection_end (state (copy_to_context (editor_at 0 0) fox ''quick brown'')) = 15"
    by code_simp+
  from capture_offsets_in_range[OF h] h s e show ?thesis
    by blast
qed

text \<open>
  C10. After every capture that does not warn that there is no text to copy, the context
  text returned is the slice of the source text between the stored offsets.
\<close>

theorem capture_context_is_region:
  assumes "notice (copy_to_context ed source_text selected_text) \<noteq> Warning ''No text to copy.''"
  shows "fst (returned (copy_to_context ed source_text selected_text))
         = py_slice source_text
             (selection_start (state (copy_to_context ed source_text selected_text)))
             (selection_end (state (copy_to_context ed source_text selected_text)))"
proof -
  from assms
  have ne: "strip (if strip selected_text \<noteq> [] then selected_text else source_text) \<noteq> []"
    by (simp only: copy_to_context_notice not_False_eq_True)
  show ?thesis
  proof (cases "strip selected_text \<noteq> [] \<and> selected_text \<noteq> source_text
                \<and> str_find source_text selected_text \<noteq> - 1")
    case True
    then have found: "str_find source_text selected_text \<noteq> - 1" by simp
    from py_slice_at_find[OF found] copy_to_context_found[of selected_text source_text ed] True
    show ?thesis by simp
  next
    case False
    then have "strip selected_text = [] \<or> selected_text = source_text
               \<or> str_find source_text selected_text = - 1"
      by blast
    from copy_to_context_full[OF ne this, of ed] show ?thesis
      by (simp add: py_slice_whole)
  qed
qed

theorem capture_context_is_region_witness:
  "notice (copy_to_context (editor_at 0 0) ''a b'' '' '') \<noteq> Warning ''No text to copy.''
   \<and> fst (returned (copy_to_context (editor_at 0 0) ''a b'' '' '')) = ''a b''
   \<and> fst (returned (copy_to_context (editor_at 0 0) ''a b'' '' ''))
      = py_slice ''a b''
          (selection_start (state (copy_to_context (editor_at 0 0) ''a b'' '' '')))
          (selection_end (state (copy_to_context (editor_at 0 0) ''a b'' '' '')))"
proof -
  have h: "notice (copy_to_context (editor_at 0 0) ''a b'' '' '') \<noteq> Warning ''No text to copy.''"
    by code_simp
  have r: "fst (returned (copy_to_context (editor_at 0 0) ''a b'' '' '')) = ''a b''"
    by code_simp
  from capture_context_is_region[OF h] h r show ?thesis
    by blast
qed


section \<open>Splice\<close>

text \<open>
  C1, as the code has it. When the stored offsets are \<open>(a, b)\<close> with
  \<open>0 \<le> a \<le> b \<le> len(S)\<close>, the context text passed in is \<open>S[a:b]\<close>, and both
  \<open>S[a:b]\<close> and the modified text \<open>M\<close> contain a character other than whitespace, splice
  returns \<open>S[:a] + M + S[b:]\<close>.
\<close>

theorem splice_round_trip:
  assumes "0 \<le> a" and "a \<le> b" and "b \<le> int (length S)"
    and "selection_start ed = a" and "selection_end ed = b"
    and "strip (py_slice S a b) \<noteq> []" and "strip M \<noteq> []"
  shows "returned (apply_modified now ed S (py_slice S a b) M)
         = slice_to S a @ M @ slice_from S b"
proof -
  from assms(6) have "py_slice S a b \<noteq> []"
    by (rule strip_nonempty_D)
  with assms(1-3) have "a < int (length S)"
    by (auto simp: py_slice_in_range)
  with assms show ?thesis
    by (simp add: apply_modified_def Let_def max_def min_def)
qed

theorem splice_round_trip_witness:
  "(0::int) \<le> 4 \<and> (4::int) \<le> 15 \<and> 15 \<le> int (length fox)
   \<and> selection_start (editor_at 4 15) = 4 \<and> selection_end (editor_at 4 15) = 15
   \<and> py_slice fox 4 15 = ''quick brown''
   \<and> strip (py_slice fox 4 15) \<noteq> [] \<and> strip ''slow red'' \<noteq> []
   \<and> returned (apply_modified ''2025-01-02T00:00:00Z'' (editor_at 4 15) fox
                 (py_slice fox 4 15) ''slow red'')
      = ''The slow red fox''"
proof -
  have h1: "(0::int) \<le> 4" and h2: "(4::int) \<le> 15"
    by simp_all
  have h3: "15 \<le> int (length fox)"
    by code_simp
  have h4: "selection_start (editor_at 4 15) = 4" and h5: "selection_end (editor_at 4 15) = 15"
    by code_simp+
  have h6: "strip (py_slice fox 4 15) \<noteq> []" and h7: "strip ''slow red'' \<noteq> []"
    by code_simp+
  have c: "py_slice fox 4 15 = ''quick brown''"
    by code_simp
  have r: "slice_to fox 4 @ ''slow red'' @ slice_from fox 15 = ''The slow red fox''"
    by code_simp
  from splice_round_trip[OF h1 h2 h3 h4 h5 h6 h7, of "''2025-01-02T00:00:00Z''"]
  have "returned (apply_modified ''2025-01-02T00:00:00Z'' (editor_at 4 15) fox
                   (py_slice fox 4 15) ''slow red'') = ''The slow red fox''"
    by (simp only: r)
  with h1 h2 h3 h4 h5 h6 h7 c show ?thesis
    by blast
qed

text \<open>
  C1 as stated fails in two ways. With \<open>a = b = 1\<close> in \<open>ab\<close> the context \<open>S[1:1]\<close> is
  empty, and splice returns \<open>ab\<close> where the claim has \<open>aXb\<close>. With \<open>(a, b) = (0, 1)\<close> and
  a modified text of one blank, splice returns \<open>ab\<close> where the claim has a blank followed
  by \<open>b\<close>.
\<close>

theorem splice_round_trip_counterexample:
  "(0::int) \<le> 1 \<and> (1::int) \<le> 1 \<and> 1 \<le> int (length ''ab'')
   \<and> selection_start (editor_at 1 1) = 1 \<and> selection_end (editor_at 1 1) = 1
   \<and> returned (apply_modified ''2025-01-02T00:00:00Z'' (editor_at 1 1) ''ab''
                 (py_slice ''ab'' 1 1) ''X'') = ''ab''
   \<and> slice_to ''ab'' 1 @ ''X'' @ slice_from ''ab'' 1 = ''aXb''
   \<and> returned (apply_modified ''2025-01-02T00:00:00Z'' (editor_at 1 1) ''ab''
                 (py_slice ''ab'' 1 1) ''X'')
      \<noteq> slice_to ''ab'' 1 @ ''X'' @ slice_from ''ab'' 1
   \<and> (0::int) \<le> 0 \<and> (0::int) \<le> 1
   \<and> selection_start (editor_at 0 1) = 0 \<and> selection_end (editor_at 0 1) = 1
   \<and> returned (apply_modified ''2025-01-02T00:00:00Z'' (editor_at 0 1) ''ab''
                 (py_slice ''ab'' 0 1) '' '') = ''ab''
   \<and> slice_to ''ab'' 0 @ '' '' @ slice_from ''ab'' 1 = '' b''
   \<and> returned (apply_modified ''2025-01-02T00:00:00Z'' (editor_at 0 1) ''ab''
                 (py_slice ''ab'' 0 1) '' '')
      \<noteq> slice_to ''ab'' 0 @ '' '' @ slice_from ''ab'' 1"
  by code_simp

text \<open>
  C2. When the context text and the modified text both contain a character other than
  whitespace and the stored offsets pass the index check, a region
  \<open>source_text[start:end]\<close> (after clamping) that differs from the context text makes
  splice refuse with the mismatch warning; it returns the source text and leaves the
  editor as it was.
\<close>

theorem stale_selection_refused:
  assumes "strip context_text \<noteq> []" and "strip modification_text \<noteq> []"
    and "\<not> (selection_start ed < 0 \<or> selection_end ed < 0
            \<or> selection_start ed \<ge> int (length source_text))"
    and "py_slice source_text (max 0 (selection_start ed))
           (min (int (length source_text)) (selection_end ed)) \<noteq> context_text"
  shows "apply_modified now ed source_text context_text modification_text
         = \<lparr>state = ed, returned = source_text, notice = Warning mismatch_msg\<rparr>"
  using assms by (simp add: apply_modified_def Let_def)

theorem stale_selection_refused_witness:
  "strip ''quick brown'' \<noteq> [] \<and> strip ''slow red'' \<noteq> []
   \<and> \<not> (selection_start (editor_at 4 15) < 0 \<or> selection_end (editor_at 4 15) < 0
        \<or> selection_start (editor_at 4 15) \<ge> int (length ''A quick brown fox''))
   \<and> py_slice ''A quick brown fox'' (max 0 (selection_start (editor_at 4 15)))
        (min (int (length ''A quick brown fox'')) (selection_end (editor_at 4 15)))
      = ''ick brown f''
   \<and> apply_modified ''2025-01-02T00:00:00Z'' (editor_at 4 15) ''A quick brown fox''
        ''quick brown'' ''slow red''
      = \<lparr>state = editor_at 4 15, returned = ''A quick brown fox'',
         notice = Warning mismatch_msg\<rparr>"
proof -
  have h1: "strip ''quick brown'' \<noteq> []" and h2: "strip ''slow red'' \<noteq> []"
    by code_simp+
  have h3: "\<not> (selection_start (editor_at 4 15) < 0 \<or> selection_end (editor_at 4 15) < 0
        \<or> selection_start (editor_at 4 15) \<ge> int (length ''A quick brown fox''))"
    by code_simp
  have r: "py_slice ''A quick brown fox'' (max 0 (selection_start (editor_at 4 15)))
        (min (int (length ''A quick brown fox'')) (selection_end (editor_at 4 15)))
      = ''ick brown f''"
    by code_simp
  have h4: "py_slice ''A quick brown fox'' (max 0 (selection_start (editor_at 4 15)))
        (min (int (length ''A quick brown fox'')) (selection_end (editor_at 4 15)))
      \<noteq> ''quick brown''"
    by code_simp
  from stale_selection_refused[OF h1 h2 h3 h4, of "''2025-01-02T00:00:00Z''"] h1 h2 h3 r
  show ?thesis by blast
qed

text \<open>
  C4, as the code has it. When the context text and the modified text both contain a
  character other than whitespace, splice refuses with the invalid-indices warning if and
  only if the stored start is negative, the stored end is negative, or the stored start
  is at or beyond the length of the source text.
\<close>

theorem invalid_indices_iff:
  assumes "strip context_text \<noteq> []" and "strip modification_text \<noteq> []"
  shows "(notice (apply_modified now ed source_text context_text modification_text)
            = Warning invalid_indices_msg)
         = (selection_start ed < 0 \<or> selection_end ed < 0
            \<or> selection_start ed \<ge> int (length source_text))"
  using assms by (simp add: apply_modified_def Let_def messages_distinct)

theorem invalid_indices_iff_witness:
  "strip ''abc'' \<noteq> [] \<and> strip ''X'' \<noteq> []
   \<and> selection_start (editor_at 3 5) \<ge> int (length ''abc'')
   \<and> notice (apply_modified ''2025-01-02T00:00:00Z'' (editor_at 3 5) ''abc'' ''abc'' ''X'')
      = Warning invalid_indices_msg"
proof -
  have h1: "strip ''abc'' \<noteq> []" and h2: "strip ''X'' \<noteq> []"
    by code_simp+
  have s: "selection_start (editor_at 3 5) \<ge> int (length ''abc'')"
    by code_simp
  from invalid_indices_iff[OF h1 h2, of "''2025-01-02T00:00:00Z''" "editor_at 3 5" "''abc''"]
    h1 h2 s
  show ?thesis by blast
qed

text \<open>
  C4 as stated fails: with the stored offsets \<open>(0, -1)\<close> and the source text \<open>abc\<close>,
  splice refuses with the invalid-indices warning although the stored start is neither
  negative nor at or beyond the length of the source text.
\<close>

theorem invalid_indices_iff_counterexample:
  "strip ''abc'' \<noteq> [] \<and> strip ''X'' \<noteq> []
   \<and> notice (apply_modified ''2025-01-02T00:00:00Z'' (editor_at 0 (- 1)) ''abc'' ''abc'' ''X'')
      = Warning invalid_indices_msg
   \<and> \<not> (selection_start (editor_at 0 (- 1)) < 0
        \<or> selection_start (editor_at 0 (- 1)) \<ge> int (length ''abc''))"
  by code_simp

text \<open>
  C5. Whenever splice refuses, that is, shows a warning, it returns the source text it was
  given and leaves the editor (the stored offsets and the document) as it was; the
  warning is one of the four refusals. The model has no exceptional outcome because the
  function raises nowhere on strings.
\<close>

theorem refusal_atomic:
  assumes "notice (apply_modified now ed source_text context_text modification_text) = Warning w"
  shows "state (apply_modified now ed source_text context_text modification_text) = ed
         \<and> returned (apply_modified now ed source_text context_text modification_text)
             = source_text
         \<and> w \<in> {no_context_msg, no_modified_msg, invalid_indices_msg, mismatch_msg}"
  using assms by (auto simp add: apply_modified_def Let_def split: if_splits)

theorem refusal_atomic_witness:
  "notice (apply_modified ''2025-01-02T00:00:00Z'' (editor_at 4 15) ''A quick brown fox''
             ''quick brown'' ''slow red'') = Warning mismatch_msg
   \<and> state (apply_modified ''2025-01-02T00:00:00Z'' (editor_at 4 15) ''A quick brown fox''
              ''quick brown'' ''slow red'') = editor_at 4 15
   \<and> returned (apply_modified ''2025-01-02T00:00:00Z'' (editor_at 4 15) ''A quick brown fox''
                 ''quick brown'' ''slow red'') = ''A quick brown fox''"
proof -
  have h: "notice (apply_modified ''2025-01-02T00:00:00Z'' (editor_at 4 15)
                     ''A quick brown fox'' ''quick brown'' ''slow red'')
           = Warning mismatch_msg"
    by code_simp
  from refusal_atomic[OF h] h show ?thesis
    by blast
qed

text \<open>
  C6. After a splice of the context text \<open>C\<close> into \<open>S\<close> has succeeded with the result
  \<open>N\<close>, a second splice on \<open>N\<close> with the same context text and any modified text that
  contains a character other than whitespace refuses (with the mismatch warning), returns
  \<open>N\<close> and leaves the editor as the first splice left it.
\<close>

theorem second_splice_refused:
  assumes "notice (apply_modified now ed S C M) = Info i"
    and "strip M' \<noteq> []"
  shows "apply_modified now' (state (apply_modified now ed S C M))
           (returned (apply_modified now ed S C M)) C M'
         = \<lparr>state = state (apply_modified now ed S C M),
            returned = returned (apply_modified now ed S C M),
            notice = Warning mismatch_msg\<rparr>"
proof -
  note ok = apply_modified_success[OF assms(1)]
  from ok(1) have C: "C \<noteq> []" by (rule strip_nonempty_D)
  from ok(2) have M: "M \<noteq> []" by (rule strip_nonempty_D)
  have st: "selection_start (state (apply_modified now ed S C M)) = 0"
    "selection_end (state (apply_modified now ed S C M)) = 0"
    by (simp_all add: ok(7))
  have len: "0 < length (returned (apply_modified now ed S C M))"
    using M by (simp add: ok(7))
  show ?thesis
    using ok(1) assms(2) C st len
    by (simp add: apply_modified_def[of now' "state (apply_modified now ed S C M)"] Let_def
          py_slice_empty)
qed

theorem second_splice_refused_witness:
  "notice (apply_modified ''2025-01-02T00:00:00Z'' (editor_at 4 15) fox ''quick brown''
             ''slow red'')
     = Info ''Modified text applied successfully at indices 4:15''
   \<and> strip ''fast blue'' \<noteq> []
   \<and> returned (apply_modified ''2025-01-02T00:00:00Z'' (editor_at 4 15) fox ''quick brown''
                 ''slow red'') = ''The slow red fox''
   \<and> apply_modified ''2025-01-03T00:00:00Z''
        (state (apply_modified ''2025-01-02T00:00:00Z'' (editor_at 4 15) fox ''quick brown''
                  ''slow red''))
        (returned (apply_modified ''2025-01-02T00:00:00Z'' (editor_at 4 15) fox
                     ''quick brown'' ''slow red''))
        ''quick brown'' ''fast blue''
      = \<lparr>state = state (apply_modified ''2025-01-02T00:00:00Z'' (editor_at 4 15) fox
                         ''quick brown'' ''slow red''),
         returned = returned (apply_modified ''2025-01-02T00:00:00Z'' (editor_at 4 15) fox
                                ''quick brown'' ''slow red''),
         notice = Warning mismatch_msg\<rparr>"
proof -
  have h1: "notice (apply_modified ''2025-01-02T00:00:00Z'' (editor_at 4 15) fox
                      ''quick brown'' ''slow red'')
            = Info ''Modified text applied successfully at indices 4:15''"
    by code_simp
  have h2: "strip ''fast blue'' \<noteq> []"
    by code_simp
  have r: "returned (apply_modified ''2025-01-02T00:00:00Z'' (editor_at 4 15) fox
                       ''quick brown'' ''slow red'') = ''The slow red fox''"
    by code_simp
  from second_splice_refused[OF h1 h2, of "''2025-01-03T00:00:00Z''"] h1 h2 r
  show ?thesis by blast
qed

text \<open>
  C8. Every splice that succeeds, that is, reports that the modified text was applied,
  leaves the stored offsets at \<open>(0, 0)\<close>.
\<close>

theorem splice_success_resets_selection:
  assumes "notice (apply_modified now ed source_text context_text modification_text) = Info i"
  shows "selection_start (state (apply_modified now ed source_text context_text
                                     modification_text)) = 0
         \<and> selection_end (state (apply_modified now ed source_text context_text
                                     modification_text)) = 0"
  using assms by (auto simp add: apply_modified_def Let_def split: if_splits)

theorem splice_success_resets_selection_witness:
  "notice (apply_modified ''2025-01-02T00:00:00Z''
             (state (copy_to_context (editor_at 0 0) ''Hello world'' []))
             ''Hello world'' ''Hello world'' ''Hi there'')
     = Info ''Modified text applied successfully at indices 0:11''
   \<and> returned (apply_modified ''2025-01-02T00:00:00Z''
                 (state (copy_to_context (editor_at 0 0) ''Hello world'' []))
                 ''Hello world'' ''Hello world'' ''Hi there'') = ''Hi there''
   \<and> selection_start (state (apply_modified ''2025-01-02T00:00:00Z''
                               (state (copy_to_context (editor_at 0 0) ''Hello world'' []))
                               ''Hello world'' ''Hello world'' ''Hi there'')) = 0
   \<and> selection_end (state (apply_modified ''2025-01-02T00:00:00Z''
                             (state (copy_to_context (editor_at 0 0) ''Hello world'' []))
                             ''Hello world'' ''Hello world'' ''Hi there'')) = 0"
proof -
  have h: "notice (apply_modified ''2025-01-02T00:00:00Z''
                     (state (copy_to_context (editor_at 0 0) ''Hello world'' []))
                     ''Hello world'' ''Hello world'' ''Hi there'')
           = Info ''Modified text applied successfully at indices 0:11''"
    by code_simp
  have r: "returned (apply_modified ''2025-01-02T00:00:00Z''
                       (state (copy_to_context (editor_at 0 0) ''Hello world'' []))
                       ''Hello world'' ''Hello world'' ''Hi there'') = ''Hi there''"
    by code_simp
  from splice_success_resets_selection[OF h] h r show ?thesis
    by blast
qed

end
